theory Spec2Isabelle
  imports Complex_Main
begin

section \<open>Values and columns of a data frame\<close>

text \<open>
  The loader (\<^verbatim>\<open>scripts/enhanced_olist_loader.py\<close>) and the exploratory analysis
  (\<^verbatim>\<open>scripts/data_field_and_types_raw.py\<close>) work on pandas data frames. A column of a
  frame has one storage type. A float64 cell is a finite number, an infinity or NaN; the
  finite numbers are written as rationals.
\<close>

datatype fl = Fin rat | Infinity | NaN

text \<open>The value one text token denotes when it is read as a number.\<close>

datatype num = IntV int | FloatV fl

text \<open>
  A column: \<open>int64\<close>, \<open>float64\<close>, \<open>bool\<close>, \<open>object\<close> (text cells, \<open>None\<close> the missing
  cell) or \<open>datetime64[ns]\<close> (\<open>None\<close> is NaT).
\<close>

datatype series =
    Int64 "int list"
  | Float64 "fl list"
  | Boolean "bool list"
  | Object "string option list"
  | Datetime "int option list"

datatype error =
    ParserError
  | EmptyDataError
  | MissingDateColumn string
  | IntCastingNaNError
  | BoolNotDatetime
  | ZeroDivisionError

text \<open>
  The library's parsers and printers of single tokens are parameters of the model:
  which tokens \<^verbatim>\<open>read_csv\<close> takes for a missing value, what a token denotes as a number,
  as a boolean and as a timestamp, and how a finite float and a timestamp print.
\<close>

record pandas =
  is_na :: "string \<Rightarrow> bool"
  parse_num :: "string \<Rightarrow> num option"
  parse_bool :: "string \<Rightarrow> bool option"
  parse_dt :: "string \<Rightarrow> int option"
  str_fin :: "rat \<Rightarrow> string"
  str_dt :: "int \<Rightarrow> string"

subsection \<open>Conversion between int64 and float64\<close>

function bitlen :: "int \<Rightarrow> nat" where
  "bitlen n = (if n \<le> 0 then 0 else Suc (bitlen (n div 2)))"
  by pat_completeness auto
termination
  by (relation "measure nat") auto

declare bitlen.simps [simp del]

text \<open>
  An integer stored in a float64 cell keeps 53 significant bits; the rest is rounded to
  nearest, ties to even.
\<close>

definition f64_of_int :: "int \<Rightarrow> int" where
  "f64_of_int n =
     (let a = \<bar>n\<bar> in
      if a \<le> 2 ^ 53 then n
      else
        let e = bitlen a - 53;
            q = a div 2 ^ e;
            r = a mod 2 ^ e;
            h = 2 ^ (e - 1);
            q' = (if h < r \<or> (r = h \<and> odd q) then q + 1 else q)
        in sgn n * (q' * 2 ^ e))"

definition to_float :: "int \<Rightarrow> fl" where
  "to_float n = Fin (of_int (f64_of_int n))"

text \<open>\<^verbatim>\<open>astype(int)\<close> of a float cell truncates towards zero and raises on NaN and infinity.\<close>

definition trunc :: "rat \<Rightarrow> int" where
  "trunc r = (if 0 \<le> r then \<lfloor>r\<rfloor> else \<lceil>r\<rceil>)"

fun float_to_int :: "fl \<Rightarrow> error + int" where
  "float_to_int (Fin r) = Inr (trunc r)"
| "float_to_int Infinity = Inl IntCastingNaNError"
| "float_to_int NaN = Inl IntCastingNaNError"

fun sequence :: "('e + 'a) list \<Rightarrow> 'e + 'a list" where
  "sequence [] = Inr []"
| "sequence (x # xs) =
     (case x of Inl e \<Rightarrow> Inl e
      | Inr v \<Rightarrow> (case sequence xs of Inl e \<Rightarrow> Inl e | Inr vs \<Rightarrow> Inr (v # vs)))"

section \<open>Reading a column\<close>

text \<open>
  \<^verbatim>\<open>pd.read_csv\<close> decides the storage type of each column from its tokens. A token that
  is a missing-value marker is a missing cell. A column without rows is an \<open>object\<close>
  column. A column whose present tokens are all numbers is \<open>int64\<close> when every token is
  an integer and none is missing, and \<open>float64\<close> otherwise. A column whose tokens are all
  booleans is \<open>bool\<close>. Every other column is an \<open>object\<close> column of text.
\<close>

definition cell :: "pandas \<Rightarrow> string \<Rightarrow> string option" where
  "cell P t = (if is_na P t then None else Some t)"

fun num_to_float :: "num \<Rightarrow> fl" where
  "num_to_float (IntV n) = to_float n"
| "num_to_float (FloatV f) = f"

fun is_int :: "num \<Rightarrow> bool" where
  "is_int (IntV n) = True"
| "is_int (FloatV f) = False"

fun int_of :: "num \<Rightarrow> int" where
  "int_of (IntV n) = n"
| "int_of (FloatV f) = 0"

definition num_cell :: "pandas \<Rightarrow> string option \<Rightarrow> num" where
  "num_cell P c =
     (case c of None \<Rightarrow> FloatV NaN
      | Some t \<Rightarrow> (case parse_num P t of None \<Rightarrow> FloatV NaN | Some v \<Rightarrow> v))"

definition infer_column :: "pandas \<Rightarrow> string list \<Rightarrow> series" where
  "infer_column P toks =
     (let cells = map (cell P) toks;
          present = filter (\<lambda>t. \<not> is_na P t) toks
      in if toks = [] then Object []
         else if list_all (\<lambda>t. parse_num P t \<noteq> None) present then
           (if list_all (\<lambda>c. c \<noteq> None \<and> is_int (num_cell P c)) cells
            then Int64 (map (\<lambda>c. int_of (num_cell P c)) cells)
            else Float64 (map (\<lambda>c. num_to_float (num_cell P c)) cells))
         else if list_all (\<lambda>c. c \<noteq> None) cells \<and> list_all (\<lambda>t. parse_bool P t \<noteq> None) toks
           then Boolean (map (\<lambda>t. case parse_bool P t of None \<Rightarrow> False | Some b \<Rightarrow> b) toks)
         else Object cells)"

section \<open>Coercion of a declared column\<close>

text \<open>
  The numeric columns \<^verbatim>\<open>pd.to_numeric\<close> returns. With \<^verbatim>\<open>errors='coerce'\<close> a text cell
  that is no number becomes NaN; a numeric or boolean column is returned as it is; a
  datetime column is returned as its int64 view, NaT as the least int64.
\<close>

datatype numeric = NumInt "int list" | NumFloat "fl list" | NumBool "bool list"

definition to_numeric :: "pandas \<Rightarrow> series \<Rightarrow> numeric" where
  "to_numeric P s =
     (case s of
        Int64 xs \<Rightarrow> NumInt xs
      | Float64 xs \<Rightarrow> NumFloat xs
      | Boolean bs \<Rightarrow> NumBool bs
      | Object cs \<Rightarrow>
          (if list_all (\<lambda>c. is_int (num_cell P c)) cs
           then NumInt (map (\<lambda>c. int_of (num_cell P c)) cs)
           else NumFloat (map (\<lambda>c. num_to_float (num_cell P c)) cs))
      | Datetime ds \<Rightarrow> NumInt (map (\<lambda>d. case d of None \<Rightarrow> - (2 ^ 63) | Some t \<Rightarrow> t) ds))"

fun fillna_fl :: "fl \<Rightarrow> fl \<Rightarrow> fl" where
  "fillna_fl v NaN = v"
| "fillna_fl v (Fin r) = Fin r"
| "fillna_fl v Infinity = Infinity"

fun fillna :: "numeric \<Rightarrow> int \<Rightarrow> numeric" where
  "fillna (NumFloat xs) v = NumFloat (map (fillna_fl (Fin (of_int v))) xs)"
| "fillna (NumInt xs) v = NumInt xs"
| "fillna (NumBool bs) v = NumBool bs"

fun astype_int :: "numeric \<Rightarrow> error + int list" where
  "astype_int (NumInt xs) = Inr xs"
| "astype_int (NumFloat xs) = sequence (map float_to_int xs)"
| "astype_int (NumBool bs) = Inr (map (\<lambda>b. if b then 1 else 0) bs)"

text \<open>
  Line 274: \<^verbatim>\<open>pd.to_numeric(df[col], errors='coerce').fillna(0).astype(int)\<close>.
\<close>

definition coerce_int :: "pandas \<Rightarrow> series \<Rightarrow> error + int list" where
  "coerce_int P s = astype_int (fillna (to_numeric P s) 0)"

section \<open>The library's parsers on plain literals\<close>

text \<open>
  One instance of the parameters, for evaluating the model on concrete files: the default
  missing-value markers of \<^verbatim>\<open>read_csv\<close>, decimal literals with an optional sign and an
  optional fraction, the boolean literals, and dates written \<^verbatim>\<open>YYYY-MM-DD\<close> (a timestamp is
  kept as an ordinal number of its day).
\<close>

definition na_values :: "string list" where
  "na_values = ['''', ''#N/A'', ''#N/A N/A'', ''#NA'', ''-1.#IND'', ''-1.#QNAN'', ''-NaN'',
     ''-nan'', ''1.#IND'', ''1.#QNAN'', ''<NA>'', ''N/A'', ''NA'', ''NULL'', ''NaN'', ''None'',
     ''n/a'', ''nan'', ''null'']"

definition digit_val :: "char \<Rightarrow> int option" where
  "digit_val c = map_of (zip ''0123456789'' [0, 1, 2, 3, 4, 5, 6, 7, 8, 9]) c"

fun digits_acc :: "int \<Rightarrow> string \<Rightarrow> int option" where
  "digits_acc a [] = Some a"
| "digits_acc a (c # cs) =
     (case digit_val c of None \<Rightarrow> None | Some d \<Rightarrow> digits_acc (10 * a + d) cs)"

definition parse_digits :: "string \<Rightarrow> int option" where
  "parse_digits s = (if s = [] then None else digits_acc 0 s)"

definition unsigned_num :: "string \<Rightarrow> num option" where
  "unsigned_num s =
     (let ip = takeWhile (\<lambda>c. c \<noteq> CHR ''.'') s;
          rest = dropWhile (\<lambda>c. c \<noteq> CHR ''.'') s
      in case (if ip = [] \<and> 1 < length rest then Some 0 else parse_digits ip) of
           None \<Rightarrow> None
         | Some a \<Rightarrow>
             (if rest = [] then
                (if a < 2 ^ 63 then Some (IntV a) else Some (FloatV (to_float a)))
              else case digits_acc 0 (tl rest) of
                     None \<Rightarrow> None
                   | Some b \<Rightarrow> Some (FloatV (Fin (of_int a + of_int b / 10 ^ length (tl rest))))))"

fun negate :: "num \<Rightarrow> num" where
  "negate (IntV n) = IntV (- n)"
| "negate (FloatV (Fin r)) = FloatV (Fin (- r))"
| "negate (FloatV f) = FloatV f"

definition std_parse_num :: "string \<Rightarrow> num option" where
  "std_parse_num s =
     (case s of
        [] \<Rightarrow> None
      | c # cs \<Rightarrow>
          if c = CHR ''-'' then map_option negate (unsigned_num cs)
          else if c = CHR ''+'' then unsigned_num cs
          else unsigned_num s)"

definition std_parse_bool :: "string \<Rightarrow> bool option" where
  "std_parse_bool s =
     (if s \<in> set [''True'', ''TRUE'', ''true''] then Some True
      else if s \<in> set [''False'', ''FALSE'', ''false''] then Some False
      else None)"

definition std_parse_dt :: "string \<Rightarrow> int option" where
  "std_parse_dt s =
     (if length s = 10 \<and> s ! 4 = CHR ''-'' \<and> s ! 7 = CHR ''-'' then
        (case (parse_digits (take 4 s), parse_digits (take 2 (drop 5 s)), parse_digits (drop 8 s)) of
           (Some y, Some m, Some d) \<Rightarrow>
             (if 1 \<le> m \<and> m \<le> 12 \<and> 1 \<le> d \<and> d \<le> 31
              then Some ((y * 12 + (m - 1)) * 31 + (d - 1)) else None)
         | _ \<Rightarrow> None)
      else None)"

text \<open>Python's \<^verbatim>\<open>str\<close> of an integer (\<open>str_nat\<close> is for the integers from 0).\<close>

function str_nat :: "int \<Rightarrow> string" where
  "str_nat n =
     (if n < 10 then [''0123456789'' ! nat n]
      else str_nat (n div 10) @ [''0123456789'' ! nat (n mod 10)])"
  by pat_completeness auto
termination
  by (relation "measure nat") auto

declare str_nat.simps [simp del]

definition str_int :: "int \<Rightarrow> string" where
  "str_int n = (if n < 0 then ''-'' @ str_nat (- n) else str_nat n)"

fun frac_digits :: "nat \<Rightarrow> rat \<Rightarrow> string" where
  "frac_digits 0 r = []"
| "frac_digits (Suc k) r =
     (let d = \<lfloor>10 * r\<rfloor>; r' = 10 * r - of_int d
      in (''0123456789'' ! nat d) # (if r' = 0 then [] else frac_digits k r'))"

definition std_str_fin :: "rat \<Rightarrow> string" where
  "std_str_fin r =
     (if r < 0 then ''-'' else []) @ str_nat \<bar>trunc r\<bar> @ ''.''
       @ frac_digits 17 (\<bar>r\<bar> - of_int \<bar>trunc r\<bar>)"

definition std_str_dt :: "int \<Rightarrow> string" where
  "std_str_dt t =
     (let d = t mod 31 + 1; m = (t div 31) mod 12 + 1; y = t div 372;
          two = (\<lambda>k. (if k < 10 then ''0'' else []) @ str_nat k)
      in str_nat y @ ''-'' @ two m @ ''-'' @ two d)"

definition std :: pandas where
  "std = \<lparr> is_na = (\<lambda>t. t \<in> set na_values), parse_num = std_parse_num,
           parse_bool = std_parse_bool, parse_dt = std_parse_dt,
           str_fin = std_str_fin, str_dt = std_str_dt \<rparr>"

section \<open>The other declared types\<close>

text \<open>
  Line 272, \<^verbatim>\<open>df[col].astype(str).replace('nan', None)\<close>: every cell is printed, a missing
  cell prints as \<^verbatim>\<open>nan\<close>, and every cell that reads \<^verbatim>\<open>nan\<close> becomes \<open>None\<close>.
\<close>

fun str_fl :: "pandas \<Rightarrow> fl \<Rightarrow> string" where
  "str_fl P (Fin r) = str_fin P r"
| "str_fl P Infinity = ''inf''"
| "str_fl P NaN = ''nan''"

fun astype_str :: "pandas \<Rightarrow> series \<Rightarrow> string list" where
  "astype_str P (Int64 xs) = map str_int xs"
| "astype_str P (Float64 xs) = map (str_fl P) xs"
| "astype_str P (Boolean bs) = map (\<lambda>b. if b then ''True'' else ''False'') bs"
| "astype_str P (Object cs) = map (\<lambda>c. case c of None \<Rightarrow> ''nan'' | Some t \<Rightarrow> t) cs"
| "astype_str P (Datetime ds) = map (\<lambda>d. case d of None \<Rightarrow> ''NaT'' | Some t \<Rightarrow> str_dt P t) ds"

definition replace :: "string list \<Rightarrow> string \<Rightarrow> string option \<Rightarrow> string option list" where
  "replace xs to_replace v = map (\<lambda>x. if x = to_replace then v else Some x) xs"

definition coerce_string :: "pandas \<Rightarrow> series \<Rightarrow> string option list" where
  "coerce_string P s = replace (astype_str P s) ''nan'' None"

text \<open>Line 276, \<^verbatim>\<open>pd.to_numeric(df[col], errors='coerce')\<close>.\<close>

fun series_of :: "numeric \<Rightarrow> series" where
  "series_of (NumInt xs) = Int64 xs"
| "series_of (NumFloat xs) = Float64 xs"
| "series_of (NumBool bs) = Boolean bs"

definition coerce_float :: "pandas \<Rightarrow> series \<Rightarrow> series" where
  "coerce_float P s = series_of (to_numeric P s)"

text \<open>
  Line 279, \<^verbatim>\<open>pd.to_datetime(df[col], errors='coerce')\<close>: a text cell that is no timestamp
  becomes NaT, a number is a timestamp already, and a boolean column is refused.
\<close>

fun fl_to_dt :: "fl \<Rightarrow> int option" where
  "fl_to_dt (Fin r) = Some (trunc r)"
| "fl_to_dt Infinity = None"
| "fl_to_dt NaN = None"

fun to_datetime :: "pandas \<Rightarrow> series \<Rightarrow> error + int option list" where
  "to_datetime P (Object cs) = Inr (map (\<lambda>c. Option.bind c (parse_dt P)) cs)"
| "to_datetime P (Datetime ds) = Inr ds"
| "to_datetime P (Int64 xs) = Inr (map Some xs)"
| "to_datetime P (Float64 xs) = Inr (map fl_to_dt xs)"
| "to_datetime P (Boolean bs) = Inl BoolNotDatetime"

section \<open>Frames and files\<close>

text \<open>
  A frame is the list of its columns in the order of the header. A source file is either
  unreadable as delimited text or gives, for each name of its header, the tokens of that
  column; a file that is absent is \<open>None\<close> in the directory.
\<close>

type_synonym frame = "(string \<times> series) list"

datatype csv_file = Unreadable | Csv "(string \<times> string list) list"

type_synonym directory = "string \<Rightarrow> csv_file option"

text \<open>\<^verbatim>\<open>df.columns\<close>.\<close>

definition df_columns :: "frame \<Rightarrow> string list" where
  "df_columns df = map fst df"

fun series_len :: "series \<Rightarrow> nat" where
  "series_len (Int64 xs) = length xs"
| "series_len (Float64 xs) = length xs"
| "series_len (Boolean bs) = length bs"
| "series_len (Object cs) = length cs"
| "series_len (Datetime ds) = length ds"

text \<open>\<^verbatim>\<open>len(df)\<close>.\<close>

definition len :: "frame \<Rightarrow> nat" where
  "len df = (case df of [] \<Rightarrow> 0 | c # cs \<Rightarrow> series_len (snd c))"

text \<open>\<^verbatim>\<open>df[col] = s\<close> for a column the frame has.\<close>

definition set_col :: "string \<Rightarrow> series \<Rightarrow> frame \<Rightarrow> frame" where
  "set_col col s df = map (\<lambda>c. if fst c = col then (col, s) else c) df"

text \<open>
  A column named in \<^verbatim>\<open>parse_dates\<close> is parsed while it is read: it is a datetime column
  when every present token is a timestamp and stays a column of text otherwise. A name in
  \<^verbatim>\<open>parse_dates\<close> that the header lacks is an error of the read.
\<close>

definition read_date_column :: "pandas \<Rightarrow> string list \<Rightarrow> series" where
  "read_date_column P toks =
     (let cells = map (cell P) toks
      in if list_all (\<lambda>c. case c of None \<Rightarrow> True | Some t \<Rightarrow> parse_dt P t \<noteq> None) cells
         then Datetime (map (\<lambda>c. Option.bind c (parse_dt P)) cells)
         else Object cells)"

text \<open>
  The columns of a table have one length. A file without any column has nothing to parse,
  and a value whose columns differ in length stands for no table: both fail the read.
\<close>

definition rectangular :: "(string \<times> string list) list \<Rightarrow> bool" where
  "rectangular cols =
     list_all (\<lambda>c. length (snd c) = (case cols of [] \<Rightarrow> 0 | c0 # cs \<Rightarrow> length (snd c0))) cols"

definition read_csv :: "pandas \<Rightarrow> csv_file \<Rightarrow> string list \<Rightarrow> error + frame" where
  "read_csv P f parse_dates =
     (case f of
        Unreadable \<Rightarrow> Inl ParserError
      | Csv cols \<Rightarrow>
          if cols = [] then Inl EmptyDataError
          else if \<not> rectangular cols then Inl ParserError
          else
            (case filter (\<lambda>d. d \<notin> set (map fst cols)) parse_dates of
               d # ds \<Rightarrow> Inl (MissingDateColumn d)
             | [] \<Rightarrow>
                 Inr (map (\<lambda>c. (fst c,
                                if fst c \<in> set parse_dates then read_date_column P (snd c)
                                else infer_column P (snd c))) cols)))"

section \<open>The table configurations\<close>

record config =
  table_name :: string
  schema :: string
  dtypes :: "(string \<times> string) list"
  date_columns :: "string list"
  primary_key :: "string option"
  indexes :: "string list"

text \<open>\<^verbatim>\<open>OlistDataLoader.table_configs\<close>, in the order of the dictionary.\<close>

definition table_configs :: "(string \<times> config) list" where
  "table_configs =
   [(''olist_customers_dataset.csv'',
     \<lparr> table_name = ''customers'', schema = ''raw_data'',
       dtypes = [(''customer_id'', ''string''), (''customer_unique_id'', ''string''),
                 (''customer_zip_code_prefix'', ''string''), (''customer_city'', ''string''),
                 (''customer_state'', ''string'')],
       date_columns = [],
       primary_key = Some ''customer_id'',
       indexes = [''customer_unique_id'', ''customer_state'', ''customer_zip_code_prefix''] \<rparr>),
    (''olist_geolocation_dataset.csv'',
     \<lparr> table_name = ''geolocation'', schema = ''raw_data'',
       dtypes = [(''geolocation_zip_code_prefix'', ''string''), (''geolocation_lat'', ''float''),
                 (''geolocation_lng'', ''float''), (''geolocation_city'', ''string''),
                 (''geolocation_state'', ''string'')],
       date_columns = [],
       primary_key = None,
       indexes = [''geolocation_zip_code_prefix'', ''geolocation_state''] \<rparr>),
    (''olist_orders_dataset.csv'',
     \<lparr> table_name = ''orders'', schema = ''raw_data'',
       dtypes = [(''order_id'', ''string''), (''customer_id'', ''string''),
                 (''order_status'', ''string''), (''order_purchase_timestamp'', ''datetime''),
                 (''order_approved_at'', ''datetime''),
                 (''order_delivered_carrier_date'', ''datetime''),
                 (''order_delivered_customer_date'', ''datetime''),
                 (''order_estimated_delivery_date'', ''datetime'')],
       date_columns = [''order_purchase_timestamp'', ''order_approved_at'',
                       ''order_delivered_carrier_date'', ''order_delivered_customer_date'',
                       ''order_estimated_delivery_date''],
       primary_key = Some ''order_id'',
       indexes = [''customer_id'', ''order_status'', ''order_purchase_timestamp''] \<rparr>),
    (''olist_order_items_dataset.csv'',
     \<lparr> table_name = ''order_items'', schema = ''raw_data'',
       dtypes = [(''order_id'', ''string''), (''order_item_id'', ''int''),
                 (''product_id'', ''string''), (''seller_id'', ''string''),
                 (''shipping_limit_date'', ''datetime''), (''price'', ''float''),
                 (''freight_value'', ''float'')],
       date_columns = [''shipping_limit_date''],
       primary_key = None,
       indexes = [''order_id'', ''product_id'', ''seller_id''] \<rparr>),
    (''olist_order_payments_dataset.csv'',
     \<lparr> table_name = ''order_payments'', schema = ''raw_data'',
       dtypes = [(''order_id'', ''string''), (''payment_sequential'', ''int''),
                 (''payment_type'', ''string''), (''payment_installments'', ''int''),
                 (''payment_value'', ''float'')],
       date_columns = [],
       primary_key = None,
       indexes = [''order_id'', ''payment_type''] \<rparr>),
    (''olist_order_reviews_dataset.csv'',
     \<lparr> table_name = ''order_reviews'', schema = ''raw_data'',
       dtypes = [(''review_id'', ''string''), (''order_id'', ''string''),
                 (''review_score'', ''int''), (''review_comment_title'', ''string''),
                 (''review_comment_message'', ''string''),
                 (''review_creation_date'', ''datetime''),
                 (''review_answer_timestamp'', ''datetime'')],
       date_columns = [''review_creation_date'', ''review_answer_timestamp''],
       primary_key = Some ''review_id'',
       indexes = [''order_id'', ''review_score'', ''review_creation_date''] \<rparr>),
    (''olist_products_dataset.csv'',
     \<lparr> table_name = ''products'', schema = ''raw_data'',
       dtypes = [(''product_id'', ''string''), (''product_category_name'', ''string''),
                 (''product_name_lenght'', ''float''), (''product_description_lenght'', ''float''),
                 (''product_photos_qty'', ''float''), (''product_weight_g'', ''float''),
                 (''product_length_cm'', ''float''), (''product_height_cm'', ''float''),
                 (''product_width_cm'', ''float'')],
       date_columns = [],
       primary_key = Some ''product_id'',
       indexes = [''product_category_name''] \<rparr>),
    (''olist_sellers_dataset.csv'',
     \<lparr> table_name = ''sellers'', schema = ''raw_data'',
       dtypes = [(''seller_id'', ''string''), (''seller_zip_code_prefix'', ''string''),
                 (''seller_city'', ''string''), (''seller_state'', ''string'')],
       date_columns = [],
       primary_key = Some ''seller_id'',
       indexes = [''seller_state'', ''seller_zip_code_prefix''] \<rparr>),
    (''product_category_name_translation.csv'',
     \<lparr> table_name = ''product_category_translation'', schema = ''raw_data'',
       dtypes = [(''product_category_name'', ''string''),
                 (''product_category_name_english'', ''string'')],
       date_columns = [],
       primary_key = Some ''product_category_name'',
       indexes = [] \<rparr>)]"

section \<open>The coercion loop\<close>

text \<open>
  Lines 269 to 279: one declared column. A declared column that the frame lacks is passed
  over (\<^verbatim>\<open>if col in df.columns\<close>); a datetime column that was parsed while reading is left
  as it is.
\<close>

definition coerce_col :: "pandas \<Rightarrow> config \<Rightarrow> string \<times> string \<Rightarrow> frame \<Rightarrow> error + frame" where
  "coerce_col P cfg cd df =
     (let col = fst cd; dtype = snd cd
      in case map_of df col of
           None \<Rightarrow> Inr df
         | Some s \<Rightarrow>
             if dtype = ''string'' then Inr (set_col col (Object (coerce_string P s)) df)
             else if dtype = ''int'' then
               (case coerce_int P s of
                  Inl e \<Rightarrow> Inl e
                | Inr xs \<Rightarrow> Inr (set_col col (Int64 xs) df))
             else if dtype = ''float'' then Inr (set_col col (coerce_float P s) df)
             else if dtype = ''datetime'' then
               (if col \<notin> set (date_columns cfg) then
                  (case to_datetime P s of
                     Inl e \<Rightarrow> Inl e
                   | Inr ds \<Rightarrow> Inr (set_col col (Datetime ds) df))
                else Inr df)
             else Inr df)"

fun coerce_columns :: "pandas \<Rightarrow> config \<Rightarrow> (string \<times> string) list \<Rightarrow> frame \<Rightarrow> error + frame" where
  "coerce_columns P cfg [] df = Inr df"
| "coerce_columns P cfg (cd # cds) df =
     (case coerce_col P cfg cd df of
        Inl e \<Rightarrow> Inl e
      | Inr df' \<Rightarrow> coerce_columns P cfg cds df')"

text \<open>Lines 258 to 279: the frame that is written, or the error that fails the table.\<close>

definition read_and_coerce :: "pandas \<Rightarrow> config \<Rightarrow> csv_file \<Rightarrow> error + frame" where
  "read_and_coerce P cfg f =
     (case read_csv P f (date_columns cfg) of
        Inl e \<Rightarrow> Inl e
      | Inr df \<Rightarrow> coerce_columns P cfg (dtypes cfg) df)"

section \<open>The store\<close>

text \<open>
  The target database, as far as the loader writes it: the tables, by schema and name, and
  the indexes, by schema and name, each with the name of the table it is on. The model
  takes every statement sent over an open connection to succeed.
\<close>

type_synonym relname = "string \<times> string"

record store =
  tables :: "relname \<Rightarrow> frame option"
  index_on :: "relname \<Rightarrow> string option"

text \<open>
  Lines 290 to 298, \<^verbatim>\<open>df.to_sql(..., if_exists='replace')\<close>: a table of that name is dropped,
  and its indexes with it, and the frame is written as the new table.
\<close>

definition to_sql :: "frame \<Rightarrow> config \<Rightarrow> store \<Rightarrow> store" where
  "to_sql df cfg st =
     st\<lparr> tables := (tables st)((schema cfg, table_name cfg) \<mapsto> df),
         index_on := (\<lambda>i. if fst i = schema cfg \<and> index_on st i = Some (table_name cfg)
                            then None else index_on st i) \<rparr>"

text \<open>Lines 305 to 309, \<^verbatim>\<open>CREATE INDEX IF NOT EXISTS idx_<table>_<column>\<close>.\<close>

definition index_name :: "config \<Rightarrow> string \<Rightarrow> string" where
  "index_name cfg index_col = ''idx_'' @ table_name cfg @ ''_'' @ index_col"

definition create_index :: "config \<Rightarrow> string \<Rightarrow> store \<Rightarrow> store" where
  "create_index cfg index_col st =
     (let i = (schema cfg, index_name cfg index_col)
      in if index_on st i = None
         then st\<lparr> index_on := (index_on st)(i \<mapsto> table_name cfg) \<rparr>
         else st)"

fun create_indexes :: "config \<Rightarrow> frame \<Rightarrow> string list \<Rightarrow> store \<Rightarrow> store" where
  "create_indexes cfg df [] st = st"
| "create_indexes cfg df (index_col # cs) st =
     create_indexes cfg df cs
       (if index_col \<in> set (df_columns df) then create_index cfg index_col st else st)"


text \<open>The store of a fresh database.\<close>

definition empty_store :: store where
  "empty_store = \<lparr> tables = (\<lambda>k. None), index_on = (\<lambda>i. None) \<rparr>"

section \<open>The load\<close>

text \<open>Lines 290 to 310: the frame is written and its indexes are created.\<close>

definition write_table :: "config \<Rightarrow> frame \<Rightarrow> store \<Rightarrow> store" where
  "write_table cfg df st = create_indexes cfg df (indexes cfg) (to_sql df cfg st)"

text \<open>
  The body of the \<^verbatim>\<open>try\<close> block for one table whose file exists. The null counts of
  lines 282 to 287 and the row count of lines 313 to 318 are logged and decide nothing.
\<close>

definition load_table :: "pandas \<Rightarrow> config \<Rightarrow> csv_file \<Rightarrow> store \<Rightarrow> error + store" where
  "load_table P cfg f st =
     (case read_and_coerce P cfg f of
        Inl e \<Rightarrow> Inl e
      | Inr df \<Rightarrow> Inr (write_table cfg df st))"

record summary =
  successful_loads :: "string list"
  failed_loads :: "string list"
  db :: store

text \<open>The loop of \<^verbatim>\<open>load_csv_files\<close> over the configurations, lines 244 to 324.\<close>

fun load_loop :: "pandas \<Rightarrow> directory \<Rightarrow> (string \<times> config) list \<Rightarrow> summary \<Rightarrow> summary" where
  "load_loop P dir [] acc = acc"
| "load_loop P dir (c # cs) acc =
     (case dir (fst c) of
        None \<Rightarrow> load_loop P dir cs (acc\<lparr> failed_loads := failed_loads acc @ [fst c] \<rparr>)
      | Some f \<Rightarrow>
          (case load_table P (snd c) f (db acc) of
             Inl e \<Rightarrow> load_loop P dir cs (acc\<lparr> failed_loads := failed_loads acc @ [fst c] \<rparr>)
           | Inr st \<Rightarrow>
               load_loop P dir cs
                 (acc\<lparr> successful_loads := successful_loads acc @ [table_name (snd c)],
                       db := st \<rparr>)))"

definition load_csv_files :: "pandas \<Rightarrow> directory \<Rightarrow> store \<Rightarrow> bool \<times> summary" where
  "load_csv_files P dir st =
     (let r = load_loop P dir table_configs
                \<lparr> successful_loads = [], failed_loads = [], db = st \<rparr>
      in (0 < length (successful_loads r), r))"

text \<open>
  \<^verbatim>\<open>main\<close>, lines 611 to 658: the exit status of the process. Whether the connection and
  the creation of the schemas succeed is given; the steps after the load catch their own
  errors and do not change the status.
\<close>

definition main :: "pandas \<Rightarrow> bool \<Rightarrow> bool \<Rightarrow> directory \<Rightarrow> store \<Rightarrow> nat \<times> summary option" where
  "main P connect_database create_schemas dir st =
     (if \<not> connect_database then (1, None)
      else if \<not> create_schemas then (1, None)
      else let r = load_csv_files P dir st
           in if fst r then (0, Some (snd r)) else (1, Some (snd r)))"

subsection \<open>The indexes the loader names\<close>






subsection \<open>Two runs on concrete files\<close>




section \<open>The exploratory analysis\<close>

text \<open>
  \<^verbatim>\<open>analyze_csv_files\<close> of \<^verbatim>\<open>scripts/data_field_and_types_raw.py\<close>. The values of a profile
  keep the type they have in Python: \<^verbatim>\<open>len(df)\<close> is a Python integer, the sum of a boolean
  column (\<^verbatim>\<open>df[column].isnull().sum()\<close>) is a numpy integer.
\<close>

datatype pyval = PInt int | PFloat fl | PBool bool | PStr string | PTime int

datatype pynum = PyInt int | NpInt int

fun dropna :: "series \<Rightarrow> pyval list" where
  "dropna (Int64 xs) = map PInt xs"
| "dropna (Float64 xs) = map PFloat (filter (\<lambda>x. x \<noteq> NaN) xs)"
| "dropna (Boolean bs) = map PBool bs"
| "dropna (Object cs) = map PStr (List.map_filter (\<lambda>c. c) cs)"
| "dropna (Datetime ds) = map PTime (List.map_filter (\<lambda>d. d) ds)"

text \<open>\<^verbatim>\<open>isnull()\<close>: which cells of a column are missing.\<close>

fun isnull :: "series \<Rightarrow> bool list" where
  "isnull (Int64 xs) = map (\<lambda>x. False) xs"
| "isnull (Float64 xs) = map (\<lambda>x. x = NaN) xs"
| "isnull (Boolean bs) = map (\<lambda>b. False) bs"
| "isnull (Object cs) = map (\<lambda>c. c = None) cs"
| "isnull (Datetime ds) = map (\<lambda>d. d = None) ds"

fun dtype_name :: "series \<Rightarrow> string" where
  "dtype_name (Int64 xs) = ''int64''"
| "dtype_name (Float64 xs) = ''float64''"
| "dtype_name (Boolean bs) = ''bool''"
| "dtype_name (Object cs) = ''object''"
| "dtype_name (Datetime ds) = ''datetime64[ns]''"

text \<open>
  Lines 52 to 67. \<^verbatim>\<open>pd.to_datetime(..., errors='raise')\<close> and
  \<^verbatim>\<open>pd.to_numeric(..., errors='raise')\<close> return when every value of the sample parses, and
  the bare \<^verbatim>\<open>except\<close> takes the next branch otherwise.
\<close>

fun suggest :: "pandas \<Rightarrow> series \<Rightarrow> string" where
  "suggest P (Object cs) =
     (let sample = take 100 (List.map_filter (\<lambda>c. c) cs)
      in if list_all (\<lambda>t. parse_dt P t \<noteq> None) sample then ''datetime''
         else if list_all (\<lambda>t. parse_num P t \<noteq> None) sample then ''numeric''
         else ''string'')"
| "suggest P (Int64 xs) = ''numeric''"
| "suggest P (Float64 xs) = ''numeric''"
| "suggest P s = dtype_name s"

record column_info =
  dtype :: string
  non_null_count :: nat
  null_count :: pynum
  unique_count :: nat
  sample_values :: "pyval list"
  suggested_type :: string

definition analyze_column :: "pandas \<Rightarrow> series \<Rightarrow> column_info" where
  "analyze_column P s =
     \<lparr> dtype = dtype_name s,
       non_null_count = length (dropna s),
       null_count = NpInt (int (length (filter (\<lambda>b. b) (isnull s)))),
       unique_count = length (remdups (dropna s)),
       sample_values = (if series_len s \<noteq> 0 then take 3 (dropna s) else []),
       suggested_type = suggest P s \<rparr>"

record file_info =
  file_name :: string
  total_rows :: pynum
  total_columns :: nat
  columns :: "(string \<times> column_info) list"

definition analyze_file :: "pandas \<Rightarrow> string \<Rightarrow> csv_file \<Rightarrow> error + file_info" where
  "analyze_file P name f =
     (case read_csv P f [] of
        Inl e \<Rightarrow> Inl e
      | Inr df \<Rightarrow>
          Inr \<lparr> file_name = name, total_rows = PyInt (int (len df)),
                total_columns = length df,
                columns = map (\<lambda>c. (fst c, analyze_column P (snd c))) df \<rparr>)"

definition endswith :: "string \<Rightarrow> string \<Rightarrow> bool" where
  "endswith s suffix = (length suffix \<le> length s \<and> drop (length s - length suffix) s = suffix)"

definition analyze_csv_files ::
  "pandas \<Rightarrow> (string \<times> csv_file) list \<Rightarrow> (string \<times> (error + file_info)) list" where
  "analyze_csv_files P listing =
     map (\<lambda>e. (fst e, analyze_file P (fst e) (snd e)))
       (filter (\<lambda>e. endswith (fst e) ''.csv'') listing)"

subsection \<open>The detailed report\<close>

text \<open>
  \<^verbatim>\<open>/\<close> raises on a zero divisor when both operands are Python integers; with a numpy
  operand it is numpy's division, which gives NaN or an infinity and a warning.
\<close>

fun truediv :: "pynum \<Rightarrow> pynum \<Rightarrow> error + fl" where
  "truediv (PyInt a) (PyInt b) =
     (if b = 0 then Inl ZeroDivisionError else Inr (Fin (of_int a / of_int b)))"
| "truediv (NpInt a) (PyInt b) =
     (if b = 0 then Inr (if a = 0 then NaN else Infinity) else Inr (Fin (of_int a / of_int b)))"
| "truediv (PyInt a) (NpInt b) =
     (if b = 0 then Inr (if a = 0 then NaN else Infinity) else Inr (Fin (of_int a / of_int b)))"
| "truediv (NpInt a) (NpInt b) =
     (if b = 0 then Inr (if a = 0 then NaN else Infinity) else Inr (Fin (of_int a / of_int b)))"

fun fl_times :: "fl \<Rightarrow> rat \<Rightarrow> fl" where
  "fl_times (Fin r) k = Fin (r * k)"
| "fl_times Infinity k = Infinity"
| "fl_times NaN k = NaN"

fun fl_rsub :: "rat \<Rightarrow> fl \<Rightarrow> fl" where
  "fl_rsub k (Fin r) = Fin (k - r)"
| "fl_rsub k Infinity = Infinity"
| "fl_rsub k NaN = NaN"

text \<open>
  What the report prints: the line of a file that could not be read, the head of a file, and
  the entry of a column with its name, current type, suggested type, non-null count, non-null
  percentage, unique count and samples.
\<close>

datatype line =
    ErrorEntry string error
  | FileEntry string pynum nat
  | ColumnEntry string string string nat fl nat "pyval list"

definition print_column :: "file_info \<Rightarrow> string \<times> column_info \<Rightarrow> error + line" where
  "print_column info c =
     (case truediv (null_count (snd c)) (total_rows info) of
        Inl e \<Rightarrow> Inl e
      | Inr q \<Rightarrow>
          (let null_percentage = fl_times q 100
           in Inr (ColumnEntry (fst c) (dtype (snd c)) (suggested_type (snd c))
                     (non_null_count (snd c)) (fl_rsub 100 null_percentage)
                     (unique_count (snd c)) (sample_values (snd c)))))"

fun print_detailed_analysis :: "(string \<times> (error + file_info)) list \<Rightarrow> error + line list" where
  "print_detailed_analysis [] = Inr []"
| "print_detailed_analysis (r # rs) =
     (case snd r of
        Inl e \<Rightarrow>
          (case print_detailed_analysis rs of
             Inl e' \<Rightarrow> Inl e'
           | Inr ls \<Rightarrow> Inr (ErrorEntry (fst r) e # ls))
      | Inr info \<Rightarrow>
          (case sequence (map (print_column info) (columns info)) of
             Inl e' \<Rightarrow> Inl e'
           | Inr cls \<Rightarrow>
               (case print_detailed_analysis rs of
                  Inl e' \<Rightarrow> Inl e'
                | Inr ls \<Rightarrow>
                    Inr (FileEntry (fst r) (total_rows info) (total_columns info) # cls @ ls))))"

section \<open>Verified properties\<close>

subsection \<open>Auxiliary facts\<close>













subsection \<open>Coercion of a column declared \<open>int\<close>\<close>




subsection \<open>Coercion of a column declared \<open>string\<close>\<close>



subsection \<open>Missing cells of a column declared \<open>int\<close>\<close>





subsection \<open>Zero-padded identifiers\<close>

text \<open>
  C2. The sellers file is read without a declared type for its columns, so a column of
  zip code prefixes whose tokens are all digits is read as numbers before line 272 prints
  it: the prefix \<^verbatim>\<open>01310\<close> is loaded as \<^verbatim>\<open>1310\<close>, and as \<^verbatim>\<open>1310.0\<close> when the column also
  has a missing cell.
\<close>

theorem zip_code_leading_zero_lost:
  "(case map_of table_configs ''olist_sellers_dataset.csv'' of
      None \<Rightarrow> False
    | Some cfg \<Rightarrow>
        (''seller_zip_code_prefix'', ''string'') \<in> set (dtypes cfg) \<and>
        read_and_coerce std cfg
          (Csv [(''seller_id'', [''s1'', ''s2'']),
                (''seller_zip_code_prefix'', [''01310'', ''04567'']),
                (''seller_city'', [''sao paulo'', ''sao paulo'']),
                (''seller_state'', [''SP'', ''SP''])]) =
        Inr [(''seller_id'', Object [Some ''s1'', Some ''s2'']),
             (''seller_zip_code_prefix'', Object [Some ''1310'', Some ''4567'']),
             (''seller_city'', Object [Some ''sao paulo'', Some ''sao paulo'']),
             (''seller_state'', Object [Some ''SP'', Some ''SP''])] \<and>
        read_and_coerce std cfg
          (Csv [(''seller_id'', [''s1'', ''s2'']),
                (''seller_zip_code_prefix'', [''01310'', '''']),
                (''seller_city'', [''sao paulo'', ''sao paulo'']),
                (''seller_state'', [''SP'', ''SP''])]) =
        Inr [(''seller_id'', Object [Some ''s1'', Some ''s2'']),
             (''seller_zip_code_prefix'', Object [Some ''1310.0'', None]),
             (''seller_city'', Object [Some ''sao paulo'', Some ''sao paulo'']),
             (''seller_state'', Object [Some ''SP'', Some ''SP''])])"
  by code_simp

subsection \<open>Type inference of the exploratory analysis\<close>



text \<open>The suggested type of any column is one of five names.\<close>

lemma suggest_range_series:
  "suggest P s \<in> {''string'', ''numeric'', ''datetime'', ''bool'', ''datetime64[ns]''}"
  by (cases s) (simp_all add: Let_def)






subsection \<open>The detailed report on a file without rows\<close>

lemma series_len_infer_column: "series_len (infer_column P toks) = length toks"
  by (simp add: infer_column_def Let_def)

lemma isnull_count_zero: "series_len s = 0 \<Longrightarrow> filter (\<lambda>b. b) (isnull s) = []"
  by (cases s) simp_all

lemma print_column_numpy:
  assumes "null_count (snd c) = NpInt k" and "total_rows info = PyInt m"
  shows "\<exists>q. print_column info c =
           Inr (ColumnEntry (fst c) (dtype (snd c)) (suggested_type (snd c))
                  (non_null_count (snd c)) q (unique_count (snd c)) (sample_values (snd c)))
         \<and> (k = 0 \<and> m = 0 \<longrightarrow> q = NaN)"
  using assms by (simp add: print_column_def Let_def)

lemma sequence_Inr_ex:
  assumes "\<And>x. x \<in> set xs \<Longrightarrow> \<exists>y. f x = Inr y \<and> Q x y"
  shows "\<exists>ys. sequence (map f xs) = Inr ys \<and> length ys = length xs \<and>
              (\<forall>i<length xs. Q (xs ! i) (ys ! i))"
  using assms
proof (induction xs)
  case Nil
  then show ?case by simp
next
  case (Cons x xs)
  from Cons.prems obtain y where y: "f x = Inr y" "Q x y" by auto
  from Cons obtain ys where ys: "sequence (map f xs) = Inr ys" "length ys = length xs"
      "\<forall>i<length xs. Q (xs ! i) (ys ! i)"
    by auto
  have "\<forall>i<length (x # xs). Q ((x # xs) ! i) ((y # ys) ! i)"
    using y(2) ys(3) by (auto simp: nth_Cons split: nat.splits)
  with y ys show ?case by auto
qed

lemma read_csv_plain_rows:
  assumes "read_csv P f [] = Inr df"
  shows "\<forall>c\<in>set df. series_len (snd c) = len df"
proof (cases f)
  case Unreadable
  with assms show ?thesis by (simp add: read_csv_def)
next
  case (Csv cols)
  with assms have ne: "cols \<noteq> []" and rect: "rectangular cols"
    and df: "df = map (\<lambda>c. (fst c, infer_column P (snd c))) cols"
    by (auto simp: read_csv_def split: if_splits)
  from ne obtain c0 cs where cols: "cols = c0 # cs" by (cases cols) auto
  have "len df = length (snd c0)"
    using df cols by (simp add: len_def series_len_infer_column)
  moreover have "\<forall>c\<in>set cols. length (snd c) = length (snd c0)"
    using rect cols by (simp add: rectangular_def list_all_iff)
  ultimately show ?thesis
    using df by (auto simp: series_len_infer_column)
qed

text \<open>
  C10. For every file that the analysis reads, the detailed report returns: it prints the
  head of the file and one entry for each column. The null count of a profile is a numpy
  integer, so the quotient by \<open>total_rows = 0\<close> of a file that has a header and no rows is
  NaN, not an error, and every entry of such a file is printed with that percentage.
\<close>

theorem report_renders_analysis:
  assumes "analyze_file P name f = Inr info"
  shows "\<exists>cls. print_detailed_analysis [(name, Inr info)] =
                 Inr (FileEntry name (total_rows info) (total_columns info) # cls) \<and>
               length cls = length (columns info) \<and>
               (total_rows info = PyInt 0 \<longrightarrow>
                  (\<forall>i<length cls. \<exists>c d s n u v. cls ! i = ColumnEntry c d s n NaN u v))"
proof -
  from assms obtain df where df: "read_csv P f [] = Inr df"
    and info: "info = \<lparr> file_name = name, total_rows = PyInt (int (len df)),
                        total_columns = length df,
                        columns = map (\<lambda>c. (fst c, analyze_column P (snd c))) df \<rparr>"
    by (auto simp: analyze_file_def split: sum.splits)
  have rows: "\<forall>c\<in>set df. series_len (snd c) = len df"
    using read_csv_plain_rows [OF df] .
  have each: "\<exists>y. print_column info x = Inr y \<and>
                (total_rows info = PyInt 0 \<longrightarrow> (\<exists>c d s n u v. y = ColumnEntry c d s n NaN u v))"
    if x: "x \<in> set (columns info)" for x
  proof -
    from x info obtain c where c: "c \<in> set df" "x = (fst c, analyze_column P (snd c))"
      by auto
    let ?k = "int (length (filter (\<lambda>b. b) (isnull (snd c))))"
    have nc: "null_count (snd x) = NpInt ?k"
      using c(2) by (simp add: analyze_column_def)
    have tr: "total_rows info = PyInt (int (len df))"
      using info by simp
    from print_column_numpy [OF nc tr] obtain q where
      q: "print_column info x =
            Inr (ColumnEntry (fst x) (dtype (snd x)) (suggested_type (snd x))
                   (non_null_count (snd x)) q (unique_count (snd x)) (sample_values (snd x)))"
        "?k = 0 \<and> int (len df) = 0 \<longrightarrow> q = NaN"
      by blast
    have "q = NaN" if "total_rows info = PyInt 0"
    proof -
      from that tr have z: "len df = 0" by simp
      with rows c(1) have "series_len (snd c) = 0" by simp
      then have "?k = 0" by (simp add: isnull_count_zero)
      with q(2) z show ?thesis by simp
    qed
    with q(1) show ?thesis by blast
  qed
  from sequence_Inr_ex [of "columns info" "print_column info"
      "\<lambda>x y. total_rows info = PyInt 0 \<longrightarrow> (\<exists>c d s n u v. y = ColumnEntry c d s n NaN u v)", OF each]
  obtain cls where cls: "sequence (map (print_column info) (columns info)) = Inr cls"
      "length cls = length (columns info)"
      "\<forall>i<length (columns info). total_rows info = PyInt 0 \<longrightarrow>
          (\<exists>c d s n u v. cls ! i = ColumnEntry c d s n NaN u v)"
    by blast
  then show ?thesis by simp
qed

theorem report_renders_analysis_witness:
  "analyze_file std ''empty.csv'' (Csv [(''a'', []), (''b'', [])]) =
     Inr \<lparr> file_name = ''empty.csv'', total_rows = PyInt 0, total_columns = 2,
           columns = [(''a'',
             \<lparr> dtype = ''object'', non_null_count = 0, null_count = NpInt 0, unique_count = 0,
               sample_values = [], suggested_type = ''datetime'' \<rparr>),
             (''b'',
             \<lparr> dtype = ''object'', non_null_count = 0, null_count = NpInt 0, unique_count = 0,
               sample_values = [], suggested_type = ''datetime'' \<rparr>)] \<rparr> \<and>
   (\<exists>cls. print_detailed_analysis [(''empty.csv'',
              analyze_file std ''empty.csv'' (Csv [(''a'', []), (''b'', [])]))] =
            Inr (FileEntry ''empty.csv'' (PyInt 0) 2 # cls) \<and> length cls = 2 \<and>
           (\<exists>c d s n u v. cls ! 0 = ColumnEntry c d s n NaN u v))"
proof -
  let ?info = "\<lparr> file_name = ''empty.csv'', total_rows = PyInt 0, total_columns = 2,
           columns = [(''a'',
             \<lparr> dtype = ''object'', non_null_count = 0, null_count = NpInt 0, unique_count = 0,
               sample_values = [], suggested_type = ''datetime'' \<rparr>),
             (''b'',
             \<lparr> dtype = ''object'', non_null_count = 0, null_count = NpInt 0, unique_count = 0,
               sample_values = [], suggested_type = ''datetime'' \<rparr>)] \<rparr>"
  have a: "analyze_file std ''empty.csv'' (Csv [(''a'', []), (''b'', [])]) = Inr ?info"
    by code_simp
  from report_renders_analysis [OF a]
  obtain cls where "print_detailed_analysis [(''empty.csv'', Inr ?info)] =
        Inr (FileEntry ''empty.csv'' (total_rows ?info) (total_columns ?info) # cls)"
      "length cls = length (columns ?info)"
      "total_rows ?info = PyInt 0 \<longrightarrow>
         (\<forall>i<length cls. \<exists>c d s n u v. cls ! i = ColumnEntry c d s n NaN u v)"
    by blast
  then have "print_detailed_analysis [(''empty.csv'', Inr ?info)] =
        Inr (FileEntry ''empty.csv'' (PyInt 0) 2 # cls) \<and> length cls = 2 \<and>
        (\<exists>c d s n u v. cls ! 0 = ColumnEntry c d s n NaN u v)"
    by simp
  with a show ?thesis by (simp only:) blast
qed

text \<open>
  The claim as written says the report raises a division-by-zero error on such a file; on
  the profiles the analysis produces it prints the entries.
\<close>

theorem report_zero_rows_counterexample:
  "print_detailed_analysis
     (analyze_csv_files std [(''empty.csv'', Csv [(''a'', []), (''b'', [])])]) =
   Inr [FileEntry ''empty.csv'' (PyInt 0) 2,
        ColumnEntry ''a'' ''object'' ''datetime'' 0 NaN 0 [],
        ColumnEntry ''b'' ''object'' ''datetime'' 0 NaN 0 []]"
  by code_simp

subsection \<open>Failed tables and the exit status\<close>

lemma load_loop_failed_mono:
  "x \<in> set (failed_loads acc) \<Longrightarrow> x \<in> set (failed_loads (load_loop P dir cs acc))"
proof (induction cs arbitrary: acc)
  case Nil
  then show ?case by simp
next
  case (Cons a cs)
  have 1: "x \<in> set (failed_loads (acc\<lparr> failed_loads := failed_loads acc @ [fst a] \<rparr>))"
    using Cons.prems by simp
  have 2: "x \<in> set (failed_loads
              (acc\<lparr> successful_loads := successful_loads acc @ [table_name (snd a)], db := st \<rparr>))"
    for st
    using Cons.prems by simp
  show ?case
    using Cons.IH [OF 1] Cons.IH [OF 2] by (simp split: option.split sum.split)
qed

lemma load_loop_successful_mono:
  "x \<in> set (successful_loads acc) \<Longrightarrow> x \<in> set (successful_loads (load_loop P dir cs acc))"
proof (induction cs arbitrary: acc)
  case Nil
  then show ?case by simp
next
  case (Cons a cs)
  have 1: "x \<in> set (successful_loads (acc\<lparr> failed_loads := failed_loads acc @ [fst a] \<rparr>))"
    using Cons.prems by simp
  have 2: "x \<in> set (successful_loads
              (acc\<lparr> successful_loads := successful_loads acc @ [table_name (snd a)], db := st \<rparr>))"
    for st
    using Cons.prems by simp
  show ?case
    using Cons.IH [OF 1] Cons.IH [OF 2] by (simp split: option.split sum.split)
qed

lemma load_loop_missing_failed:
  "c \<in> set cs \<Longrightarrow> dir (fst c) = None \<Longrightarrow> fst c \<in> set (failed_loads (load_loop P dir cs acc))"
proof (induction cs arbitrary: acc)
  case Nil
  then show ?case by simp
next
  case (Cons a cs)
  show ?case
  proof (cases "c = a")
    case True
    with Cons.prems(2)
    have "fst c \<in> set (failed_loads (acc\<lparr> failed_loads := failed_loads acc @ [fst a] \<rparr>))"
      by simp
    then have "fst c \<in> set (failed_loads
        (load_loop P dir cs (acc\<lparr> failed_loads := failed_loads acc @ [fst a] \<rparr>)))"
      by (rule load_loop_failed_mono)
    with True Cons.prems(2) show ?thesis by simp
  next
    case False
    with Cons.prems have "c \<in> set cs" by simp
    from Cons.IH [OF this Cons.prems(2)] show ?thesis
      by (simp split: option.splits sum.splits)
  qed
qed

lemma load_loop_successful_source:
  "t \<in> set (successful_loads (load_loop P dir cs acc)) \<Longrightarrow>
   t \<in> set (successful_loads acc) \<or>
   (\<exists>c\<in>set cs. t = table_name (snd c) \<and>
      (\<exists>f df. dir (fst c) = Some f \<and> read_and_coerce P (snd c) f = Inr df))"
proof (induction cs arbitrary: acc)
  case Nil
  then show ?case by simp
next
  case (Cons a cs)
  show ?case
  proof (cases "dir (fst a)")
    case None
    with Cons.prems Cons.IH [of "acc\<lparr> failed_loads := failed_loads acc @ [fst a] \<rparr>"]
    show ?thesis by auto
  next
    case (Some f)
    show ?thesis
    proof (cases "read_and_coerce P (snd a) f")
      case (Inl e)
      with Some Cons.prems Cons.IH [of "acc\<lparr> failed_loads := failed_loads acc @ [fst a] \<rparr>"]
      show ?thesis by (auto simp: load_table_def)
    next
      case (Inr df)
      let ?st = "write_table (snd a) df (db acc)"
      from Some Inr Cons.prems
        Cons.IH [of "acc\<lparr> successful_loads := successful_loads acc @ [table_name (snd a)], db := ?st \<rparr>"]
      show ?thesis by (auto simp: load_table_def)
    qed
  qed
qed

lemma load_loop_loaded_successful:
  "c \<in> set cs \<Longrightarrow> dir (fst c) = Some f \<Longrightarrow> read_and_coerce P (snd c) f = Inr df \<Longrightarrow>
   table_name (snd c) \<in> set (successful_loads (load_loop P dir cs acc))"
proof (induction cs arbitrary: acc)
  case Nil
  then show ?case by simp
next
  case (Cons a cs)
  show ?case
  proof (cases "c = a")
    case True
    let ?st = "write_table (snd a) df (db acc)"
    let ?acc = "acc\<lparr> successful_loads := successful_loads acc @ [table_name (snd a)], db := ?st \<rparr>"
    have "table_name (snd a) \<in> set (successful_loads ?acc)" by simp
    then have "table_name (snd a) \<in> set (successful_loads (load_loop P dir cs ?acc))"
      by (rule load_loop_successful_mono)
    with True Cons.prems(2,3) show ?thesis
      by (simp add: load_table_def)
  next
    case False
    with Cons.prems have "c \<in> set cs" by simp
    from Cons.IH [OF this Cons.prems(2,3)] show ?thesis
      by (simp split: option.splits sum.splits)
  qed
qed

lemma table_names_distinct: "distinct (map (\<lambda>c. table_name (snd c)) table_configs)"
  by (simp add: table_configs_def)

lemma file_names_distinct: "distinct (map fst table_configs)"
  by (simp add: table_configs_def)

lemma table_name_inj:
  "c \<in> set table_configs \<Longrightarrow> c' \<in> set table_configs \<Longrightarrow>
   table_name (snd c) = table_name (snd c') \<Longrightarrow> c = c'"
  using table_names_distinct by (auto simp: distinct_map inj_on_def)

text \<open>
  C3. When the connection and the schemas are there, a table whose file is missing is in
  the list of failed loads and not in the list of loaded tables, and the loop goes on: every
  table whose file is there and is read and coerced is in the list of loaded tables, and
  the process then exits with status 0. The status is not 0 exactly when the connection
  fails, the creation of the schemas fails, or no table at all was loaded.
\<close>

theorem missing_file_and_exit_status:
  "(\<forall>c\<in>set table_configs. dir (fst c) = None \<longrightarrow>
       fst c \<in> set (failed_loads (snd (load_csv_files P dir st))) \<and>
       table_name (snd c) \<notin> set (successful_loads (snd (load_csv_files P dir st)))) \<and>
   (\<forall>c\<in>set table_configs. \<forall>f df.
       dir (fst c) = Some f \<and> read_and_coerce P (snd c) f = Inr df \<longrightarrow>
       table_name (snd c) \<in> set (successful_loads (snd (load_csv_files P dir st))) \<and>
       fst (main P True True dir st) = 0) \<and>
   (fst (main P connect_database create_schemas dir st) \<noteq> 0 \<longleftrightarrow>
      \<not> connect_database \<or> \<not> create_schemas \<or>
      successful_loads (snd (load_csv_files P dir st)) = [])"
proof (intro conjI ballI impI allI)
  fix c assume c: "c \<in> set table_configs" and miss: "dir (fst c) = None"
  show "fst c \<in> set (failed_loads (snd (load_csv_files P dir st)))"
    using load_loop_missing_failed [of c table_configs dir, OF c miss]
    by (simp add: load_csv_files_def Let_def)
  show "table_name (snd c) \<notin> set (successful_loads (snd (load_csv_files P dir st)))"
  proof
    assume "table_name (snd c) \<in> set (successful_loads (snd (load_csv_files P dir st)))"
    then have "table_name (snd c) \<in> set (successful_loads
        (load_loop P dir table_configs \<lparr> successful_loads = [], failed_loads = [], db = st \<rparr>))"
      by (simp add: load_csv_files_def Let_def)
    from load_loop_successful_source [OF this]
    obtain c' f where c': "c' \<in> set table_configs" "table_name (snd c) = table_name (snd c')"
        "dir (fst c') = Some f"
      by auto
    from table_name_inj [OF c c'(1,2)] c'(3) miss show False by simp
  qed
next
  fix c f df
  assume c: "c \<in> set table_configs"
    and ok: "dir (fst c) = Some f \<and> read_and_coerce P (snd c) f = Inr df"
  have s: "table_name (snd c) \<in> set (successful_loads (snd (load_csv_files P dir st)))"
    using load_loop_loaded_successful [of c table_configs dir f P df] c ok
    by (simp add: load_csv_files_def Let_def)
  then show "table_name (snd c) \<in> set (successful_loads (snd (load_csv_files P dir st)))" .
  from s have "successful_loads (snd (load_csv_files P dir st)) \<noteq> []" by auto
  then show "fst (main P True True dir st) = 0"
    by (simp add: main_def load_csv_files_def Let_def)
next
  show "fst (main P connect_database create_schemas dir st) \<noteq> 0 \<longleftrightarrow>
      \<not> connect_database \<or> \<not> create_schemas \<or>
      successful_loads (snd (load_csv_files P dir st)) = []"
    by (simp add: main_def load_csv_files_def Let_def)
qed

theorem missing_file_and_exit_status_witness:
  "''olist_sellers_dataset.csv'' \<in> set (failed_loads (snd (load_csv_files std
       (\<lambda>f. if f = ''olist_customers_dataset.csv''
            then Some (Csv [(''customer_id'', [''c1'']), (''customer_state'', [''SP''])])
            else None) empty_store))) \<and>
   ''sellers'' \<notin> set (successful_loads (snd (load_csv_files std
       (\<lambda>f. if f = ''olist_customers_dataset.csv''
            then Some (Csv [(''customer_id'', [''c1'']), (''customer_state'', [''SP''])])
            else None) empty_store))) \<and>
   ''customers'' \<in> set (successful_loads (snd (load_csv_files std
       (\<lambda>f. if f = ''olist_customers_dataset.csv''
            then Some (Csv [(''customer_id'', [''c1'']), (''customer_state'', [''SP''])])
            else None) empty_store))) \<and>
   fst (main std True True
       (\<lambda>f. if f = ''olist_customers_dataset.csv''
            then Some (Csv [(''customer_id'', [''c1'']), (''customer_state'', [''SP''])])
            else None) empty_store) = 0"
proof -
  let ?file = "Csv [(''customer_id'', [''c1'']), (''customer_state'', [''SP''])]"
  let ?dir = "\<lambda>f. if f = ''olist_customers_dataset.csv'' then Some ?file else None"
  have len: "length table_configs = 9" by (simp add: table_configs_def)
  have m7: "table_configs ! 7 \<in> set table_configs" and m0: "table_configs ! 0 \<in> set table_configs"
    using len by simp_all
  have f7: "fst (table_configs ! 7) = ''olist_sellers_dataset.csv''"
    and t7: "table_name (snd (table_configs ! 7)) = ''sellers''"
    and f0: "fst (table_configs ! 0) = ''olist_customers_dataset.csv''"
    and t0: "table_name (snd (table_configs ! 0)) = ''customers''"
    by (simp_all add: table_configs_def)
  have d7: "?dir (fst (table_configs ! 7)) = None" using f7 by simp
  have d0: "?dir (fst (table_configs ! 0)) = Some ?file" using f0 by simp
  have r0: "read_and_coerce std (snd (table_configs ! 0)) ?file =
            Inr [(''customer_id'', Object [Some ''c1'']), (''customer_state'', Object [Some ''SP''])]"
    by code_simp
  note inst = missing_file_and_exit_status [of ?dir std empty_store True True]
  from inst m7 d7 have
    "fst (table_configs ! 7) \<in> set (failed_loads (snd (load_csv_files std ?dir empty_store))) \<and>
     table_name (snd (table_configs ! 7)) \<notin> set (successful_loads (snd (load_csv_files std ?dir empty_store)))"
    by blast
  moreover from inst m0 d0 r0 have
    "table_name (snd (table_configs ! 0)) \<in> set (successful_loads (snd (load_csv_files std ?dir empty_store))) \<and>
     fst (main std True True ?dir empty_store) = 0"
    by blast
  ultimately show ?thesis
    unfolding f7 t7 t0 by blast
qed

text \<open>
  The claim as written says that failures of single tables never make the status non-zero:
  with the connection and the schemas in place and every file missing, all nine loads fail
  and the status is 1.
\<close>

theorem exit_status_counterexample:
  "failed_loads (snd (load_csv_files std (\<lambda>f. None) empty_store)) = map fst table_configs \<and>
   successful_loads (snd (load_csv_files std (\<lambda>f. None) empty_store)) = [] \<and>
   fst (main std True True (\<lambda>f. None) empty_store) = 1"
  by (simp add: main_def load_csv_files_def table_configs_def Let_def)

subsection \<open>Declared columns that the source lacks\<close>

lemma map_fst_set_col: "map fst (set_col col s df) = map fst df"
  by (induction df) (auto simp: set_col_def)

lemma coerce_col_columns:
  "coerce_col P cfg cd df = Inr df' \<Longrightarrow> df_columns df' = df_columns df"
  by (auto simp: coerce_col_def Let_def df_columns_def map_fst_set_col
           split: option.splits if_splits sum.splits)

lemma coerce_col_absent:
  "fst cd \<notin> set (df_columns df) \<Longrightarrow> coerce_col P cfg cd df = Inr df"
proof -
  assume "fst cd \<notin> set (df_columns df)"
  then have "map_of df (fst cd) = None"
    by (simp add: df_columns_def map_of_eq_None_iff)
  then show ?thesis by (simp add: coerce_col_def Let_def)
qed

lemma coerce_columns_skip_absent:
  "coerce_columns P cfg cds df =
   coerce_columns P cfg (filter (\<lambda>cd. fst cd \<in> set (df_columns df)) cds) df"
proof (induction cds arbitrary: df)
  case Nil
  then show ?case by simp
next
  case (Cons cd cds)
  show ?case
  proof (cases "fst cd \<in> set (df_columns df)")
    case False
    with Cons.IH [of df] show ?thesis by (simp add: coerce_col_absent)
  next
    case True
    show ?thesis
    proof (cases "coerce_col P cfg cd df")
      case (Inl e)
      with True show ?thesis by simp
    next
      case (Inr df')
      from coerce_col_columns [OF Inr] have "df_columns df' = df_columns df" .
      with Cons.IH [of df'] Inr True show ?thesis by simp
    qed
  qed
qed

lemma read_csv_missing_date:
  assumes "d \<in> set parse_dates" and "d \<notin> set (map fst cols)"
  shows "\<exists>e. read_csv P (Csv cols) parse_dates = Inl e"
proof -
  let ?missing = "filter (\<lambda>d. d \<notin> set (map fst cols)) parse_dates"
  from assms have "d \<in> set ?missing" by simp
  then have "0 < length ?missing" by (rule length_pos_if_in_set)
  then have "?missing \<noteq> []" by blast
  then obtain x xs where "?missing = x # xs"
    by (cases ?missing) simp_all
  then show ?thesis by (simp add: read_csv_def)
qed

text \<open>
  C7. A declared column that the frame lacks is passed over by the coercion loop without
  an error: the step for it returns the frame as it is, and the whole loop gives what it
  gives for the declarations of the columns that are there. A column named in
  \<^verbatim>\<open>date_columns\<close> that the file lacks fails the table, while the file is read.
\<close>

theorem absent_column_skipped:
  "(fst cd \<notin> set (df_columns df) \<longrightarrow> coerce_col P cfg cd df = Inr df) \<and>
   coerce_columns P cfg cds df =
     coerce_columns P cfg (filter (\<lambda>cd. fst cd \<in> set (df_columns df)) cds) df \<and>
   (\<forall>d\<in>set (date_columns cfg). d \<notin> set (map fst cols) \<longrightarrow>
      (\<exists>e. read_and_coerce P cfg (Csv cols) = Inl e))"
proof (intro conjI impI ballI)
  show "coerce_col P cfg cd df = Inr df" if "fst cd \<notin> set (df_columns df)"
    using that by (rule coerce_col_absent)
  show "coerce_columns P cfg cds df =
     coerce_columns P cfg (filter (\<lambda>cd. fst cd \<in> set (df_columns df)) cds) df"
    by (rule coerce_columns_skip_absent)
  show "\<exists>e. read_and_coerce P cfg (Csv cols) = Inl e"
    if "d \<in> set (date_columns cfg)" and "d \<notin> set (map fst cols)" for d
    using read_csv_missing_date [OF that, of P] by (auto simp: read_and_coerce_def)
qed

theorem absent_column_skipped_witness:
  "(''seller_city'', ''string'') \<in> set (dtypes (snd (table_configs ! 7))) \<and>
   coerce_col std (snd (table_configs ! 7)) (''seller_city'', ''string'')
     [(''seller_id'', Object [Some ''s1''])] = Inr [(''seller_id'', Object [Some ''s1''])] \<and>
   ''order_approved_at'' \<in> set (date_columns (snd (table_configs ! 2))) \<and>
   (\<exists>e. read_and_coerce std (snd (table_configs ! 2)) (Csv [(''order_id'', [''o1''])]) = Inl e)"
proof -
  have a: "fst (''seller_city'', ''string'') \<notin> set (df_columns [(''seller_id'', Object [Some ''s1''])])"
    by (simp add: df_columns_def)
  have b: "''order_approved_at'' \<in> set (date_columns (snd (table_configs ! 2)))"
    and c: "(''seller_city'', ''string'') \<in> set (dtypes (snd (table_configs ! 7)))"
    by (simp_all add: table_configs_def)
  have d: "''order_approved_at'' \<notin> set (map fst [(''order_id'', [''o1''])])" by simp
  note inst1 = absent_column_skipped [of "(''seller_city'', ''string'')"
      "[(''seller_id'', Object [Some ''s1''])]" std "snd (table_configs ! 7)" "[]" "[]"]
  note inst2 = absent_column_skipped [of "(''seller_city'', ''string'')"
      "[(''seller_id'', Object [Some ''s1''])]" std "snd (table_configs ! 2)" "[]"
      "[(''order_id'', [''o1''])]"]
  from inst1 a have "coerce_col std (snd (table_configs ! 7)) (''seller_city'', ''string'')
     [(''seller_id'', Object [Some ''s1''])] = Inr [(''seller_id'', Object [Some ''s1''])]"
    by blast
  moreover from inst2 b d
  have "\<exists>e. read_and_coerce std (snd (table_configs ! 2)) (Csv [(''order_id'', [''o1''])]) = Inl e"
    by blast
  ultimately show ?thesis using b c by blast
qed

text \<open>
  The claim as written says a declared column absent from the source fails the table: a
  sellers file with the one column \<^verbatim>\<open>seller_id\<close> lacks three declared columns and is loaded.
\<close>

theorem absent_column_counterexample:
  "(''seller_city'', ''string'') \<in> set (dtypes (snd (table_configs ! 7))) \<and>
   fst (table_configs ! 7) = ''olist_sellers_dataset.csv'' \<and>
   read_and_coerce std (snd (table_configs ! 7)) (Csv [(''seller_id'', [''s1''])]) =
     Inr [(''seller_id'', Object [Some ''s1''])] \<and>
   successful_loads (snd (load_csv_files std
       (\<lambda>f. if f = ''olist_sellers_dataset.csv'' then Some (Csv [(''seller_id'', [''s1''])])
            else None) empty_store)) = [''sellers''] \<and>
   ''olist_sellers_dataset.csv'' \<notin> set (failed_loads (snd (load_csv_files std
       (\<lambda>f. if f = ''olist_sellers_dataset.csv'' then Some (Csv [(''seller_id'', [''s1''])])
            else None) empty_store)))"
  by code_simp

subsection \<open>Loading twice\<close>



























end
